theory Spec2Isabelle
  imports Main "HOL-Library.Word" "HOL-Library.Char_ord" "HOL-Library.List_Lexorder"
begin

section \<open>The event-count issue reproducer (main.go)\<close>

text \<open>
  The program is one Go file. It creates a Deployment, then polls forever: it lists the
  pods of the default namespace, queries the events regarding each pod and prints, for
  each event about a Pod, whether its deprecated count is zero. A goroutine deletes the
  Deployment and exits when the process is interrupted.

  The embedding follows the file top to bottom. Go strings are byte lists
  (\<^typ>\<open>string\<close>), an \<open>int32\<close> is a \<^typ>\<open>32 word\<close> read with \<^const>\<open>sint\<close>, a pointer
  that may be \<open>nil\<close> is an \<^typ>\<open>'a option\<close>, and a Go result pair \<open>(result, err)\<close> is a
  pair of options. What the process does to the outside (writes to standard output,
  calls of the Kubernetes API, sleeping) is recorded in a trace, in program order.
\<close>

subsection \<open>Text written by \<open>fmt\<close>\<close>

definition nl :: string where
  "nl = [CHR 0x0A]"

definition digit_char :: "nat \<Rightarrow> char" where
  "digit_char d = ''0123456789'' ! d"

text \<open>The decimal digits of a natural number, most significant first, as \<open>%d\<close> prints them.\<close>

function dec_digits :: "nat \<Rightarrow> string" where
  "dec_digits n = (if n < 10 then [digit_char n] else dec_digits (n div 10) @ [digit_char (n mod 10)])"
  by pat_completeness auto
termination
  by (relation "measure (\<lambda>n. n)") auto

declare dec_digits.simps [simp del]

text \<open>\<open>%d\<close> of an \<open>int32\<close>: a minus sign for a negative value, then the magnitude.\<close>

definition fmt_d :: "32 word \<Rightarrow> string" where
  "fmt_d c = (if sint c < 0 then CHR ''-'' # dec_digits (nat (- sint c)) else dec_digits (nat (sint c)))"

text \<open>
  One write to standard output is a list of pieces. Plain text is rendered; the two
  renderings the program leaves to the libraries stay symbolic: \<open>%q\<close> of a string
  (\<open>strconv.Quote\<close>) and \<open>%s\<close> of an error value (its \<open>Error()\<close> text).
\<close>

datatype err =
    StatusError string
  | InvalidSelector string string
  | InvalidEscapeSequence string
  | UnescapedRune char

datatype piece = Plain string | GoQuoted string | ErrorText err

type_synonym line = "piece list"

definition Println :: "string \<Rightarrow> line" where
  "Println s = [Plain (s @ nl)]"

subsection \<open>The Kubernetes objects the program reads\<close>

record objectReference =
  ref_kind :: string
  ref_name :: string

record eventSeries =
  series_count :: "32 word"

record event =
  regarding :: objectReference
  series :: "eventSeries option"
  deprecatedCount :: "32 word"

record pod =
  pod_name :: string

subsection \<open>The Deployment the program creates (main.go, lines 25 to 71)\<close>

text \<open>
  The Kubernetes types, with the fields the literal sets. A Go map is a HOL map; a
  \<open>resource.Quantity\<close> is kept as the text handed to \<open>resource.MustParse\<close>.
\<close>

datatype protocol = ProtocolTCP | ProtocolUDP | ProtocolSCTP

datatype resourceName = ResourceCPU | ResourceMemory

datatype quantity = MustParse string

record containerPort =
  port_name :: string
  port_protocol :: protocol
  port_containerPort :: "32 word"

record resourceRequirements =
  res_requests :: "resourceName \<rightharpoonup> quantity"
  res_limits :: "resourceName \<rightharpoonup> quantity"

record container =
  container_name :: string
  container_image :: string
  container_ports :: "containerPort list"
  container_resources :: resourceRequirements

record podSpec =
  pod_containers :: "container list"

record objectMeta =
  meta_name :: string
  meta_labels :: "string \<rightharpoonup> string"

record podTemplateSpec =
  template_meta :: objectMeta
  template_spec :: podSpec

record labelSelector =
  matchLabels :: "string \<rightharpoonup> string"

record deploymentSpec =
  spec_replicas :: "32 word option"
  spec_selector :: "labelSelector option"
  spec_template :: podTemplateSpec

record deployment_obj =
  deployment_meta :: objectMeta
  deployment_spec :: deploymentSpec

definition deploymentName :: string where
  "deploymentName = ''event-count-issue-reproducer''"

definition int32Ptr :: "32 word \<Rightarrow> 32 word option" where
  "int32Ptr i = Some i"

definition deployment :: deployment_obj where
  "deployment =
     \<lparr>deployment_meta = \<lparr>meta_name = deploymentName, meta_labels = Map.empty\<rparr>,
      deployment_spec =
        \<lparr>spec_replicas = int32Ptr 2,
         spec_selector = Some \<lparr>matchLabels = [''app'' \<mapsto> ''demo'']\<rparr>,
         spec_template =
           \<lparr>template_meta = \<lparr>meta_name = [], meta_labels = [''app'' \<mapsto> ''demo'']\<rparr>,
            template_spec =
              \<lparr>pod_containers =
                 [\<lparr>container_name = ''web'',
                   container_image = ''nginx:1.12'',
                   container_ports =
                     [\<lparr>port_name = ''http'', port_protocol = ProtocolTCP, port_containerPort = 80\<rparr>],
                   container_resources =
                     \<lparr>res_requests = [ResourceMemory \<mapsto> MustParse ''32Gi'',
                                      ResourceCPU \<mapsto> MustParse ''500m''],
                      res_limits = [ResourceMemory \<mapsto> MustParse ''64Gi'',
                                    ResourceCPU \<mapsto> MustParse ''2000m'']\<rparr>\<rparr>]\<rparr>\<rparr>\<rparr>\<rparr>"

subsection \<open>The classifier: the body of the loop over events (main.go, lines 121 to 135)\<close>

text \<open>
  \<open>classify name ev\<close> is what one turn of the innermost loop writes for the event \<open>ev\<close>
  of the pod called \<open>name\<close>: nothing when the event is not about a Pod (\<open>continue\<close>),
  otherwise one line.
\<close>

definition classify :: "string \<Rightarrow> event \<Rightarrow> line list" where
  "classify name ev =
     (if ref_kind (regarding ev) \<noteq> ''Pod'' then []
      else if deprecatedCount ev = 0 then
        (let outputMsg = ''Issue is occuring - Event count is 0 for pod '' @ name @ ''. '';
             outputMsg = (if series ev = None then outputMsg @ ''Event series is also nil''
                          else outputMsg)
         in [Println outputMsg])
      else
        [[Plain (''Issue is no longer occuring - Event count is '' @ fmt_d (deprecatedCount ev)
                 @ ''  for pod '' @ name @ '' '' @ nl)]])"

subsection \<open>Field selectors (\<open>fields.ParseSelector\<close> and \<open>Selector.String\<close>)\<close>

text \<open>
  main.go builds the query for the events of a pod with \<open>fields.ParseSelector\<close> and hands
  \<open>selector.String()\<close> to the API. Both belong to the library
  \<open>k8s.io/apimachinery/pkg/fields\<close>, which is not part of this repository; they are
  pure string functions, modelled here after the library's \<open>selector.go\<close>
  (\<open>splitTerms\<close>, \<open>splitTerm\<close>, \<open>UnescapeValue\<close>, \<open>EscapeValue\<close>, \<open>parseSelector\<close> and the
  \<open>String\<close> methods). Strings are taken byte by byte, which is what the library does on
  valid UTF-8, the three special characters being ASCII.
\<close>

datatype selector =
    HasTerm string string
  | NotHasTerm string string
  | AndTerm "selector list"

definition backslash :: char where
  "backslash = CHR 0x5C"

text \<open>
  \<open>splitTerms\<close>: the comma-separated terms; a comma after a backslash is data. The
  arguments are the flag \<open>inSlash\<close>, the term read so far and the rest of the input.
\<close>

fun splitTerms_from :: "bool \<Rightarrow> string \<Rightarrow> string \<Rightarrow> string list" where
  "splitTerms_from inSlash cur [] = [cur]"
| "splitTerms_from inSlash cur (c # cs) =
     (if inSlash then splitTerms_from False (cur @ [c]) cs
      else if c = backslash then splitTerms_from True (cur @ [c]) cs
      else if c = CHR '','' then cur # splitTerms_from False [] cs
      else splitTerms_from False (cur @ [c]) cs)"

definition splitTerms :: "string \<Rightarrow> string list" where
  "splitTerms fieldSelector =
     (if fieldSelector = [] then [] else splitTerms_from False [] fieldSelector)"

definition termOperators :: "string list" where
  "termOperators = [''!='', ''=='', ''='']"

definition HasPrefix :: "string \<Rightarrow> string \<Rightarrow> bool" where
  "HasPrefix s p = (take (length p) s = p)"

text \<open>
  \<open>splitTerm\<close>: the first position where an operator starts splits the term; at one
  position the operators are tried in the order of \<open>termOperators\<close>.
\<close>

fun splitTerm_from :: "string \<Rightarrow> string \<Rightarrow> (string \<times> string \<times> string) option" where
  "splitTerm_from lhs [] = None"
| "splitTerm_from lhs (c # cs) =
     (case find (HasPrefix (c # cs)) termOperators of
        Some op \<Rightarrow> Some (lhs, op, drop (length op) (c # cs))
      | None \<Rightarrow> splitTerm_from (lhs @ [c]) cs)"

definition splitTerm :: "string \<Rightarrow> (string \<times> string \<times> string) option" where
  "splitTerm term = splitTerm_from [] term"

definition special :: "char \<Rightarrow> bool" where
  "special c = (c = backslash \<or> c = CHR '','' \<or> c = CHR ''='')"

fun unescape_from :: "bool \<Rightarrow> string \<Rightarrow> string \<Rightarrow> err + string" where
  "unescape_from inSlash v [] =
     (if inSlash then Inl (InvalidEscapeSequence [backslash]) else Inr v)"
| "unescape_from inSlash v (c # cs) =
     (if inSlash then
        (if special c then unescape_from False (v @ [c]) cs
         else Inl (InvalidEscapeSequence [backslash, c]))
      else if c = backslash then unescape_from True v cs
      else if c = CHR '','' \<or> c = CHR ''='' then Inl (UnescapedRune c)
      else unescape_from False (v @ [c]) cs)"

definition UnescapeValue :: "string \<Rightarrow> err + string" where
  "UnescapeValue s = (if \<not> list_ex special s then Inr s else unescape_from False [] s)"

definition EscapeValue :: "string \<Rightarrow> string" where
  "EscapeValue s = concat (map (\<lambda>c. if special c then [backslash, c] else [c]) s)"

text \<open>The loop of \<open>parseSelector\<close> over the sorted terms; it stops at the first error.\<close>

fun parse_terms :: "string \<Rightarrow> string list \<Rightarrow> err + selector list" where
  "parse_terms sel [] = Inr []"
| "parse_terms sel (part # parts) =
     (if part = [] then parse_terms sel parts
      else case splitTerm part of
        None \<Rightarrow> Inl (InvalidSelector sel part)
      | Some (lhs, op, rhs) \<Rightarrow>
          (case UnescapeValue rhs of
             Inl e \<Rightarrow> Inl e
           | Inr unescapedRHS \<Rightarrow>
               (case parse_terms sel parts of
                  Inl e \<Rightarrow> Inl e
                | Inr items \<Rightarrow>
                    Inr ((if op = ''!='' then NotHasTerm lhs unescapedRHS
                          else HasTerm lhs unescapedRHS) # items))))"

definition ParseSelector :: "string \<Rightarrow> err + selector" where
  "ParseSelector sel =
     (case parse_terms sel (sort (splitTerms sel)) of
        Inl e \<Rightarrow> Inl e
      | Inr items \<Rightarrow> Inr (case items of [item] \<Rightarrow> item | _ \<Rightarrow> AndTerm items))"

fun Join :: "string list \<Rightarrow> string \<Rightarrow> string" where
  "Join [] sep = []"
| "Join [x] sep = x"
| "Join (x # y # ys) sep = x @ sep @ Join (y # ys) sep"

fun selector_String :: "selector \<Rightarrow> string" where
  "selector_String (HasTerm field v) = field @ ''='' @ EscapeValue v"
| "selector_String (NotHasTerm field v) = field @ ''!='' @ EscapeValue v"
| "selector_String (AndTerm ts) = Join (map selector_String ts) '',''"

subsection \<open>The process and the cluster\<close>

text \<open>
  The calls of the Kubernetes API the program makes, with the arguments it passes; the
  first argument is the namespace of the client.
\<close>

datatype deletionPropagation =
  DeletePropagationOrphan | DeletePropagationBackground | DeletePropagationForeground

datatype call =
    CreateDeployment string deployment_obj
  | ListPods string
  | ListEvents string string
  | DeleteDeployment string string "deletionPropagation option"

datatype effect = Stdout line | Api call | Sleep nat

text \<open>
  How a goroutine stops the process: \<open>panic(err)\<close>, the run-time panic of a \<open>nil\<close>
  dereference, or \<open>os.Exit\<close>. A process that has not stopped is \<open>Running\<close>; both carry the
  trace so far.
\<close>

datatype halt = Panic err | NilDereference | Exit int

datatype outcome = Running "effect list" | Halted halt "effect list"

fun andThen :: "outcome \<Rightarrow> (effect list \<Rightarrow> outcome) \<Rightarrow> outcome" where
  "andThen (Running tr) k = k tr"
| "andThen (Halted h tr) k = Halted h tr"

fun trace_of :: "outcome \<Rightarrow> effect list" where
  "trace_of (Running tr) = tr"
| "trace_of (Halted h tr) = tr"

text \<open>
  The cluster is the environment: it answers every call with the pair \<open>(result, err)\<close>
  the Go client returns, either of which may be \<open>nil\<close>. Repeated calls are told apart by
  how many calls of the same kind came before.
\<close>

record cluster =
  bootstrap :: "halt option"
  create_reply :: "deployment_obj option \<times> err option"
  pods_reply :: "nat \<Rightarrow> pod list option \<times> err option"
  events_reply :: "nat \<Rightarrow> string \<Rightarrow> event list option \<times> err option"
  delete_reply :: "nat \<Rightarrow> err option"

fun is_delete :: "effect \<Rightarrow> bool" where
  "is_delete (Api (DeleteDeployment ns name policy)) = True"
| "is_delete e = False"

fun is_list_pods :: "effect \<Rightarrow> bool" where
  "is_list_pods (Api (ListPods ns)) = True"
| "is_list_pods e = False"

fun is_list_events :: "effect \<Rightarrow> bool" where
  "is_list_events (Api (ListEvents ns fs)) = True"
| "is_list_events e = False"

definition deletions :: "effect list \<Rightarrow> nat" where
  "deletions tr = length (filter is_delete tr)"

definition pod_listings :: "effect list \<Rightarrow> nat" where
  "pod_listings tr = length (filter is_list_pods tr)"

definition event_listings :: "effect list \<Rightarrow> nat" where
  "event_listings tr = length (filter is_list_events tr)"

definition NamespaceDefault :: string where
  "NamespaceDefault = ''default''"

subsection \<open>Teardown (main.go, lines 143 to 157)\<close>

definition deleteDeployment :: "cluster \<Rightarrow> effect list \<Rightarrow> outcome" where
  "deleteDeployment cl tr =
     (let tr1 = tr @ [Stdout (Println ''Deleting deployment...'')];
          deletePolicy = DeletePropagationForeground;
          tr2 = tr1 @ [Api (DeleteDeployment NamespaceDefault deploymentName (Some deletePolicy))]
      in case delete_reply cl (deletions tr1) of
           Some e \<Rightarrow> Halted (Panic e) tr2
         | None \<Rightarrow> Running (tr2 @ [Stdout (Println ''Deleted deployment.'')]))"

definition cleanupAndExit :: "cluster \<Rightarrow> effect list \<Rightarrow> outcome" where
  "cleanupAndExit cl tr =
     andThen (deleteDeployment cl tr) (\<lambda>tr. Running (tr @ [Stdout (Println ''Exiting.'')]))"

subsection \<open>The poll loop (main.go, lines 100 to 139)\<close>

text \<open>
  \<open>pod_body\<close> is the body of the loop over the pods for the pod called \<open>name\<close> (lines 109
  to 135). After a failed \<open>ParseSelector\<close> the variable \<open>selector\<close> is \<open>nil\<close>, and after a
  failed query \<open>events\<close> may be; using them is a run-time panic.
\<close>

definition pod_body :: "cluster \<Rightarrow> string \<Rightarrow> effect list \<Rightarrow> outcome" where
  "pod_body cl name tr =
     (case ParseSelector (''regarding.name='' @ name) of
        Inl e \<Rightarrow>
          andThen (cleanupAndExit cl (tr @ [Stdout [Plain ''failed to parse field selector: '', ErrorText e]]))
            (Halted NilDereference)
      | Inr selector \<Rightarrow>
          (let (events, err) = events_reply cl (event_listings tr) (selector_String selector);
               tr1 = tr @ [Api (ListEvents NamespaceDefault (selector_String selector))]
           in andThen
                (case err of
                   Some e \<Rightarrow> cleanupAndExit cl (tr1 @ [Stdout [Plain ''failed to get events: '', ErrorText e]])
                 | None \<Rightarrow> Running tr1)
                (\<lambda>tr2. case events of
                          None \<Rightarrow> Halted NilDereference tr2
                        | Some items \<Rightarrow> Running (tr2 @ map Stdout (concat (map (classify name) items))))))"

fun pods_loop :: "cluster \<Rightarrow> pod list \<Rightarrow> effect list \<Rightarrow> outcome" where
  "pods_loop cl [] tr = Running tr"
| "pods_loop cl (p # ps) tr = andThen (pod_body cl (pod_name p) tr) (pods_loop cl ps)"

text \<open>One turn of the outer loop (lines 101 to 138).\<close>

definition poll_once :: "cluster \<Rightarrow> effect list \<Rightarrow> outcome" where
  "poll_once cl tr =
     (let (podList, err) = pods_reply cl (pod_listings tr);
          tr1 = tr @ [Api (ListPods NamespaceDefault)]
      in andThen
           (case err of
              Some e \<Rightarrow> cleanupAndExit cl (tr1 @ [Stdout [Plain ''Error listing pods: '', ErrorText e]])
            | None \<Rightarrow> Running tr1)
           (\<lambda>tr2. case podList of
                     None \<Rightarrow> Halted NilDereference tr2
                   | Some items \<Rightarrow> andThen (pods_loop cl items tr2) (\<lambda>tr3. Running (tr3 @ [Sleep 1]))))"

text \<open>
  The loop \<open>for { ... }\<close> has no exit. \<open>poll_loop cl n\<close> runs its first \<open>n\<close> turns; a process
  that gets through them is \<open>Running\<close>, about to start the next one.
\<close>

fun poll_loop :: "cluster \<Rightarrow> nat \<Rightarrow> effect list \<Rightarrow> outcome" where
  "poll_loop cl 0 tr = Running tr"
| "poll_loop cl (Suc n) tr = andThen (poll_once cl tr) (poll_loop cl n)"

subsection \<open>\<open>main\<close> (lines 73 to 141) and the signal goroutine (lines 93 to 97)\<close>

text \<open>
  \<open>getClientset\<close> either stops the process before anything else happens (a panic on a
  bad configuration, the exit of \<open>flag.Parse\<close>) or returns the client: the field
  \<open>bootstrap\<close> of the cluster says which. \<open>main cl n\<close> is the main goroutine up to the end
  of the \<open>n\<close>-th turn of the poll loop.
\<close>

definition main :: "cluster \<Rightarrow> nat \<Rightarrow> outcome" where
  "main cl n =
     (case bootstrap cl of
        Some h \<Rightarrow> Halted h []
      | None \<Rightarrow>
          (let namespace = NamespaceDefault;
               (result, err) = create_reply cl;
               tr1 = [Stdout (Println ''Creating deployment...''),
                      Api (CreateDeployment namespace deployment)]
           in andThen
                (case err of
                   Some e \<Rightarrow> cleanupAndExit cl (tr1 @ [Stdout [Plain ''Error creating deployment: '', ErrorText e]])
                 | None \<Rightarrow> Running tr1)
                (\<lambda>tr2. case result of
                          None \<Rightarrow> Halted NilDereference tr2
                        | Some d \<Rightarrow>
                            poll_loop cl n
                              (tr2 @ [Stdout [Plain ''Created deployment '',
                                              GoQuoted (meta_name (deployment_meta d)),
                                              Plain (''.'' @ nl)]]))))"

text \<open>
  The goroutine started at line 93 waits for a signal, then runs the teardown and exits
  with status 0. \<open>on_signal cl tr\<close> is what it does when the signal comes after the trace
  \<open>tr\<close>, the main goroutine being between two calls.
\<close>

definition on_signal :: "cluster \<Rightarrow> effect list \<Rightarrow> outcome" where
  "on_signal cl tr = andThen (cleanupAndExit cl tr) (Halted (Exit 0))"

subsection \<open>Reading outcomes and digits back\<close>

text \<open>
  Two observations on outcomes: whether the process has stopped, and whether it stopped
  through \<open>os.Exit\<close>. \<open>dec_value\<close> reads a string of decimal digits as a number.
\<close>

fun halted :: "outcome \<Rightarrow> bool" where
  "halted (Halted h tr) = True"
| "halted (Running tr) = False"

fun exits :: "outcome \<Rightarrow> bool" where
  "exits (Halted (Exit c) tr) = True"
| "exits out = False"

definition digit_value :: "char \<Rightarrow> nat" where
  "digit_value c = of_char c - 48"

definition dec_value :: "string \<Rightarrow> nat" where
  "dec_value s = foldl (\<lambda>a c. 10 * a + digit_value c) 0 s"

subsection \<open>Clusters used as concrete inputs\<close>

text \<open>
  \<open>zero_deployment\<close> is Go's zero value \<open>appsv1.Deployment{}\<close>, which the client returns
  beside an error. In \<open>quiet_cluster\<close> every call succeeds and there are no pods; the
  other clusters change some of its answers.
\<close>

definition zero_deployment :: deployment_obj where
  "zero_deployment =
     \<lparr>deployment_meta = \<lparr>meta_name = [], meta_labels = Map.empty\<rparr>,
      deployment_spec =
        \<lparr>spec_replicas = None, spec_selector = None,
         spec_template =
           \<lparr>template_meta = \<lparr>meta_name = [], meta_labels = Map.empty\<rparr>,
            template_spec = \<lparr>pod_containers = []\<rparr>\<rparr>\<rparr>\<rparr>"

definition quiet_cluster :: cluster where
  "quiet_cluster =
     \<lparr>bootstrap = None,
      create_reply = (Some deployment, None),
      pods_reply = (\<lambda>k. (Some [], None)),
      events_reply = (\<lambda>k fs. (Some [], None)),
      delete_reply = (\<lambda>k. None)\<rparr>"

definition create_fails :: cluster where
  "create_fails =
     quiet_cluster\<lparr>create_reply := (Some zero_deployment, Some (StatusError ''already exists''))\<rparr>"

definition zero_count_event :: event where
  "zero_count_event =
     \<lparr>regarding = \<lparr>ref_kind = ''Pod'', ref_name = ''web-1''\<rparr>, series = None, deprecatedCount = 0\<rparr>"

definition listing_fails_once :: cluster where
  "listing_fails_once =
     quiet_cluster
       \<lparr>pods_reply := (\<lambda>k. if k = 0 then (Some [], Some (StatusError ''connection refused''))
                            else (Some [\<lparr>pod_name = ''web-1''\<rparr>], None)),
        events_reply := (\<lambda>k fs. (Some [zero_count_event], None))\<rparr>"

definition listing_fails_twice :: cluster where
  "listing_fails_twice =
     quiet_cluster
       \<lparr>pods_reply := (\<lambda>k. (Some [], Some (StatusError ''connection refused''))),
        delete_reply := (\<lambda>k. if k = 0 then None else Some (StatusError ''not found''))\<rparr>"

section \<open>Properties of the classifier\<close>

lemma dec_digits_small: "n < 10 \<Longrightarrow> dec_digits n = [digit_char n]"
  by (simp add: dec_digits.simps)

lemma dec_digits_step:
  "10 \<le> n \<Longrightarrow> dec_digits n = dec_digits (n div 10) @ [digit_char (n mod 10)]"
  by (subst dec_digits.simps) simp

lemma digit_value_digit_char: "d < 10 \<Longrightarrow> digit_value (digit_char d) = d"
proof -
  assume "d < 10"
  then have "d \<in> {0, 1, 2, 3, 4, 5, 6, 7, 8, 9}" by auto
  then show ?thesis by (auto simp: digit_value_def digit_char_def)
qed

lemma dec_value_snoc: "dec_value (s @ [c]) = 10 * dec_value s + digit_value c"
  by (simp add: dec_value_def)

text \<open>The digits \<open>%d\<close> prints read back as the number printed.\<close>

lemma dec_value_dec_digits: "dec_value (dec_digits n) = n"
proof (induction n rule: dec_digits.induct)
  case (1 n)
  show ?case
  proof (cases "n < 10")
    case True
    then show ?thesis
      by (simp add: dec_digits_small dec_value_def digit_value_digit_char)
  next
    case False
    then have "dec_value (dec_digits n) =
                 10 * dec_value (dec_digits (n div 10)) + digit_value (digit_char (n mod 10))"
      by (simp add: dec_digits_step dec_value_snoc)
    with False "1.IH" show ?thesis
      by (simp add: digit_value_digit_char)
  qed
qed

text \<open>
  C1. An event about a Pod whose count is 0 makes the classifier write exactly one line:
  the issue-occurring message naming the pod, with the series-is-nil detail appended to
  the same line when the event has no series.
\<close>

theorem classify_count_zero:
  assumes "ref_kind (regarding ev) = ''Pod''" and "deprecatedCount ev = 0"
  shows "classify name ev =
           [[Plain (''Issue is occuring - Event count is 0 for pod '' @ name @ ''. ''
                    @ (if series ev = None then ''Event series is also nil'' else [])
                    @ nl)]]"
  using assms by (simp add: classify_def Println_def Let_def)

theorem classify_count_zero_witness:
  "classify ''web-1''
     \<lparr>regarding = \<lparr>ref_kind = ''Pod'', ref_name = ''web-1''\<rparr>, series = None, deprecatedCount = 0\<rparr>
   = [[Plain (''Issue is occuring - Event count is 0 for pod web-1. Event series is also nil'' @ nl)]]"
  using classify_count_zero
    [of "\<lparr>regarding = \<lparr>ref_kind = ''Pod'', ref_name = ''web-1''\<rparr>, series = None, deprecatedCount = 0\<rparr>"
        "''web-1''"]
  by simp

text \<open>
  C5. An event about a Pod whose count is greater than 0 makes the classifier write the
  issue-no-longer-occurring message, which holds the decimal digits of the count and the
  name of the pod.
\<close>

theorem classify_count_positive:
  assumes "ref_kind (regarding ev) = ''Pod''" and "0 < sint (deprecatedCount ev)"
  shows "classify name ev =
           [[Plain (''Issue is no longer occuring - Event count is ''
                    @ dec_digits (nat (sint (deprecatedCount ev)))
                    @ ''  for pod '' @ name @ '' '' @ nl)]]"
proof -
  from assms(2) have "deprecatedCount ev \<noteq> 0" by auto
  with assms show ?thesis by (simp add: classify_def fmt_d_def)
qed

theorem classify_count_positive_witness:
  "classify ''web-1''
     \<lparr>regarding = \<lparr>ref_kind = ''Pod'', ref_name = ''web-1''\<rparr>, series = None, deprecatedCount = 5\<rparr>
   = [[Plain (''Issue is no longer occuring - Event count is 5  for pod web-1 '' @ nl)]]"
  using classify_count_positive
    [of "\<lparr>regarding = \<lparr>ref_kind = ''Pod'', ref_name = ''web-1''\<rparr>, series = None, deprecatedCount = 5\<rparr>"
        "''web-1''"]
  by (simp add: dec_digits_small digit_char_def)

text \<open>
  C6. An event whose subject is not a Pod makes the classifier write nothing, whatever
  its count and its series are.
\<close>

theorem classify_not_pod:
  assumes "ref_kind (regarding ev) \<noteq> ''Pod''"
  shows "classify name ev = []"
  using assms by (simp add: classify_def)

theorem classify_not_pod_witness:
  "classify ''web-1''
     \<lparr>regarding = \<lparr>ref_kind = ''Node'', ref_name = ''web-1''\<rparr>, series = None, deprecatedCount = 0\<rparr>
   = []"
  using classify_not_pod
    [of "\<lparr>regarding = \<lparr>ref_kind = ''Node'', ref_name = ''web-1''\<rparr>, series = None, deprecatedCount = 0\<rparr>"
        "''web-1''"]
  by simp

text \<open>
  C10. The test is equality with zero, so an event about a Pod whose count is negative
  takes the issue-no-longer-occurring branch too, and the message shows the negative
  count: a minus sign and the digits of its magnitude.
\<close>

theorem classify_count_negative:
  assumes "ref_kind (regarding ev) = ''Pod''" and "sint (deprecatedCount ev) < 0"
  shows "classify name ev =
           [[Plain (''Issue is no longer occuring - Event count is -''
                    @ dec_digits (nat (- sint (deprecatedCount ev)))
                    @ ''  for pod '' @ name @ '' '' @ nl)]]"
proof -
  from assms(2) have "deprecatedCount ev \<noteq> 0" by auto
  with assms show ?thesis by (simp add: classify_def fmt_d_def)
qed

theorem classify_count_negative_witness:
  "classify ''web-1''
     \<lparr>regarding = \<lparr>ref_kind = ''Pod'', ref_name = ''web-1''\<rparr>, series = None, deprecatedCount = - 3\<rparr>
   = [[Plain (''Issue is no longer occuring - Event count is -3  for pod web-1 '' @ nl)]]"
  using classify_count_negative
    [of "\<lparr>regarding = \<lparr>ref_kind = ''Pod'', ref_name = ''web-1''\<rparr>, series = None, deprecatedCount = - 3\<rparr>"
        "''web-1''"]
  by (simp add: dec_digits_small digit_char_def)

section \<open>The embedded Deployment\<close>

text \<open>
  C8. The Deployment literal is the constant the specification states: the name
  event-count-issue-reproducer, 2 replicas, one container with the image nginx:1.12 and
  one port, TCP 80 named http, requests of 500m CPU and 32Gi memory, limits of 2000m CPU
  and 64Gi memory.
\<close>

theorem deployment_constant:
  "meta_name (deployment_meta deployment) = ''event-count-issue-reproducer''
   \<and> spec_replicas (deployment_spec deployment) = Some 2
   \<and> (\<exists>c p. pod_containers (template_spec (spec_template (deployment_spec deployment))) = [c]
        \<and> container_image c = ''nginx:1.12''
        \<and> container_ports c = [p]
        \<and> port_protocol p = ProtocolTCP \<and> port_containerPort p = 80 \<and> port_name p = ''http''
        \<and> res_requests (container_resources c) ResourceCPU = Some (MustParse ''500m'')
        \<and> res_requests (container_resources c) ResourceMemory = Some (MustParse ''32Gi'')
        \<and> res_limits (container_resources c) ResourceCPU = Some (MustParse ''2000m'')
        \<and> res_limits (container_resources c) ResourceMemory = Some (MustParse ''64Gi''))"
  by (simp add: deployment_def deploymentName_def int32Ptr_def)

section \<open>The query for the events of a pod\<close>

lemma splitTerms_from_plain:
  "backslash \<notin> set s \<Longrightarrow> CHR '','' \<notin> set s \<Longrightarrow> splitTerms_from False cur s = [cur @ s]"
  by (induction s arbitrary: cur) auto

lemma splitTerm_from_equals:
  assumes "CHR ''='' \<notin> set f" and "CHR ''!'' \<notin> set f" and "take 1 rest \<noteq> ''=''"
  shows "splitTerm_from pre (f @ CHR ''='' # rest) = Some (pre @ f, ''='', rest)"
  using assms
proof (induction f arbitrary: pre)
  case Nil
  then show ?case by (simp add: termOperators_def HasPrefix_def)
next
  case (Cons c f)
  then show ?case by (auto simp: termOperators_def HasPrefix_def)
qed

lemma no_special_iff:
  "\<not> list_ex special s \<longleftrightarrow> backslash \<notin> set s \<and> CHR '','' \<notin> set s \<and> CHR ''='' \<notin> set s"
  by (induction s) (auto simp: special_def)

lemma EscapeValue_plain: "\<not> list_ex special s \<Longrightarrow> EscapeValue s = s"
  by (induction s) (auto simp: EscapeValue_def)

lemma UnescapeValue_plain: "\<not> list_ex special s \<Longrightarrow> UnescapeValue s = Inr s"
  by (simp add: UnescapeValue_def)

lemma take1_not_equals: "CHR ''='' \<notin> set s \<Longrightarrow> take 1 s \<noteq> ''=''"
  by (cases s) auto

lemma ParseSelector_regarding:
  assumes "\<not> list_ex special name"
  shows "ParseSelector (''regarding.name='' @ name) = Inr (HasTerm ''regarding.name'' name)"
proof -
  from assms have ns: "backslash \<notin> set name" "CHR '','' \<notin> set name" "CHR ''='' \<notin> set name"
    by (simp_all add: no_special_iff)
  have "splitTerms (''regarding.name='' @ name) = [''regarding.name='' @ name]"
    using splitTerms_from_plain [of "''regarding.name='' @ name" "[]"] ns
    by (simp add: splitTerms_def backslash_def)
  moreover have "splitTerm (''regarding.name='' @ name) = Some (''regarding.name'', ''='', name)"
    using splitTerm_from_equals [of "''regarding.name''" name "[]"] take1_not_equals [OF ns(3)]
    by (simp add: splitTerm_def)
  ultimately show ?thesis
    using UnescapeValue_plain [OF assms] by (simp add: ParseSelector_def)
qed

text \<open>
  The restriction on the name is needed: a comma splits the selector into two terms, and
  the second has no operator.
\<close>

lemma ParseSelector_comma:
  "ParseSelector ''regarding.name=a,b'' = Inl (InvalidSelector ''regarding.name=a,b'' ''b'')"
  by (simp add: ParseSelector_def splitTerms_def backslash_def splitTerm_def
        termOperators_def HasPrefix_def UnescapeValue_def special_def less_char_def less_eq_char_def)

text \<open>
  C7. For a pod name without a backslash, a comma or an equals sign (the characters a
  field selector value must escape; the names Kubernetes gives pods have none),
  \<open>ParseSelector\<close> accepts the formatted text as the single term
  \<open>regarding.name = name\<close>, writing that selector back gives \<open>regarding.name=\<close> followed by
  the name, and this string is the field selector of the event query, which is the first
  thing the loop body does for the pod.
\<close>

theorem event_query_string:
  assumes "CHR 0x5C \<notin> set name" and "CHR '','' \<notin> set name" and "CHR ''='' \<notin> set name"
  shows "ParseSelector (''regarding.name='' @ name) = Inr (HasTerm ''regarding.name'' name)
         \<and> selector_String (HasTerm ''regarding.name'' name) = ''regarding.name='' @ name
         \<and> take (Suc (length tr)) (trace_of (pod_body cl name tr))
             = tr @ [Api (ListEvents NamespaceDefault (''regarding.name='' @ name))]"
proof -
  from assms have plain: "\<not> list_ex special name"
    by (simp add: no_special_iff backslash_def)
  have parse: "ParseSelector (''regarding.name='' @ name) = Inr (HasTerm ''regarding.name'' name)"
    by (rule ParseSelector_regarding [OF plain])
  have str: "selector_String (HasTerm ''regarding.name'' name) = ''regarding.name='' @ name"
    by (simp add: EscapeValue_plain [OF plain])
  have "take (Suc (length tr)) (trace_of (pod_body cl name tr))
          = tr @ [Api (ListEvents NamespaceDefault (''regarding.name='' @ name))]"
    unfolding pod_body_def parse
    by (simp add: EscapeValue_plain [OF plain] cleanupAndExit_def deleteDeployment_def Let_def
          split: prod.splits option.splits)
  with parse str show ?thesis by simp
qed

theorem event_query_string_witness:
  "ParseSelector ''regarding.name=web-1'' = Inr (HasTerm ''regarding.name'' ''web-1'')
   \<and> selector_String (HasTerm ''regarding.name'' ''web-1'') = ''regarding.name=web-1''
   \<and> take 1 (trace_of (pod_body quiet_cluster ''web-1'' []))
       = [Api (ListEvents NamespaceDefault ''regarding.name=web-1'')]"
  using event_query_string [of "''web-1''" "[]" quiet_cluster] by simp

section \<open>Teardown\<close>

lemma deleteDeployment_succeeds:
  assumes "delete_reply cl (deletions tr) = None"
  shows "deleteDeployment cl tr =
           Running (tr @ [Stdout (Println ''Deleting deployment...''),
                          Api (DeleteDeployment NamespaceDefault ''event-count-issue-reproducer''
                                 (Some DeletePropagationForeground)),
                          Stdout (Println ''Deleted deployment.'')])"
  using assms by (simp add: deleteDeployment_def deletions_def deploymentName_def)

lemma deleteDeployment_panics:
  assumes "delete_reply cl (deletions tr) = Some e"
  shows "deleteDeployment cl tr =
           Halted (Panic e)
             (tr @ [Stdout (Println ''Deleting deployment...''),
                    Api (DeleteDeployment NamespaceDefault ''event-count-issue-reproducer''
                           (Some DeletePropagationForeground))])"
  using assms by (simp add: deleteDeployment_def deletions_def deploymentName_def)

lemma deleteDeployment_one_call:
  "deletions (trace_of (deleteDeployment cl tr)) = Suc (deletions tr)"
  by (simp add: deleteDeployment_def deletions_def Let_def split: option.splits)

text \<open>
  When the deletion succeeds, \<open>cleanupAndExit\<close> prints its last line and returns: the
  process is still running.
\<close>

lemma cleanupAndExit_returns:
  assumes "delete_reply cl (deletions tr) = None"
  shows "cleanupAndExit cl tr =
           Running (tr @ [Stdout (Println ''Deleting deployment...''),
                          Api (DeleteDeployment NamespaceDefault ''event-count-issue-reproducer''
                                 (Some DeletePropagationForeground)),
                          Stdout (Println ''Deleted deployment.''),
                          Stdout (Println ''Exiting.'')])"
  by (simp add: cleanupAndExit_def deleteDeployment_succeeds [OF assms])

lemma exits_andThen:
  "exits (andThen out k) \<longleftrightarrow> exits out \<or> (\<exists>tr. out = Running tr \<and> exits (k tr))"
  by (cases out) auto

lemma cleanupAndExit_never_exits: "\<not> exits (cleanupAndExit cl tr)"
  by (simp add: cleanupAndExit_def deleteDeployment_def Let_def exits_andThen split: option.splits)

text \<open>
  The goroutine of the signal does stop the process, and runs the teardown once on the
  way: with status 0 when the deletion succeeds, with the panic otherwise.
\<close>

lemma on_signal_halts: "halted (on_signal cl tr)"
  by (simp add: on_signal_def cleanupAndExit_def deleteDeployment_def Let_def split: option.splits)

lemma on_signal_exits:
  assumes "delete_reply cl (deletions tr) = None"
  shows "\<exists>tr'. on_signal cl tr = Halted (Exit 0) tr'"
  by (simp add: on_signal_def cleanupAndExit_returns [OF assms])

lemma on_signal_one_teardown: "deletions (trace_of (on_signal cl tr)) = Suc (deletions tr)"
  by (simp add: on_signal_def cleanupAndExit_def deleteDeployment_def deletions_def Let_def
        split: option.splits)

text \<open>
  C4. \<open>deleteDeployment\<close> deletes the Deployment by its fixed name with foreground
  propagation, panics on an error and prints a confirmation on success
  (\<open>deleteDeployment_succeeds\<close>, \<open>deleteDeployment_panics\<close>). Its caller \<open>cleanupAndExit\<close> does
  not end the process: on the cluster where every call succeeds it prints its line and
  returns, and the process is running.
\<close>

theorem teardown_returns_to_caller:
  "cleanupAndExit quiet_cluster [] =
     Running
       [Stdout [Plain (''Deleting deployment...'' @ nl)],
        Api (DeleteDeployment ''default'' ''event-count-issue-reproducer''
               (Some DeletePropagationForeground)),
        Stdout [Plain (''Deleted deployment.'' @ nl)],
        Stdout [Plain (''Exiting.'' @ nl)]]"
  by (simp add: cleanupAndExit_def deleteDeployment_def deletions_def Println_def Let_def
        quiet_cluster_def NamespaceDefault_def deploymentName_def)

section \<open>Errors in \<open>main\<close> and in the poll loop\<close>

lemmas run_defs =
  main_def poll_once_def pod_body_def cleanupAndExit_def deleteDeployment_def
  deletions_def pod_listings_def event_listings_def Println_def Let_def

text \<open>No path of the main goroutine reaches \<open>os.Exit\<close>: only a panic stops it.\<close>

lemma pod_body_never_exits: "\<not> exits (pod_body cl name tr)"
  by (auto simp: pod_body_def Let_def exits_andThen cleanupAndExit_never_exits
        split: sum.splits prod.splits option.splits)

lemma pods_loop_never_exits: "\<not> exits (pods_loop cl ps tr)"
  by (induction ps arbitrary: tr) (auto simp: exits_andThen pod_body_never_exits)

lemma poll_once_never_exits: "\<not> exits (poll_once cl tr)"
  by (auto simp: poll_once_def Let_def exits_andThen cleanupAndExit_never_exits
        pods_loop_never_exits split: prod.splits option.splits)

lemma poll_loop_never_exits: "\<not> exits (poll_loop cl n tr)"
  by (induction n arbitrary: tr) (auto simp: exits_andThen poll_once_never_exits)

lemma main_never_exits:
  assumes "bootstrap cl = None"
  shows "\<not> exits (main cl n)"
  using assms
  by (auto simp: main_def Let_def exits_andThen cleanupAndExit_never_exits
        poll_loop_never_exits split: prod.splits option.splits)

text \<open>
  What each error of the loop leads to when the deletion succeeds. After a failed listing
  the turn goes on to the sleep; after a failed event query the events returned beside the
  error are classified and the next pod follows; after a failed \<open>ParseSelector\<close> the
  \<open>nil\<close> selector is used and the process panics.
\<close>

lemma poll_once_listing_error_goes_on:
  assumes "pods_reply cl (pod_listings tr) = (Some [], Some e)"
    and "delete_reply cl (deletions tr) = None"
  shows "poll_once cl tr =
           Running (tr @ [Api (ListPods NamespaceDefault),
                          Stdout [Plain ''Error listing pods: '', ErrorText e],
                          Stdout (Println ''Deleting deployment...''),
                          Api (DeleteDeployment NamespaceDefault ''event-count-issue-reproducer''
                                 (Some DeletePropagationForeground)),
                          Stdout (Println ''Deleted deployment.''),
                          Stdout (Println ''Exiting.''),
                          Sleep 1])"
proof -
  have "delete_reply cl (deletions (tr @ [Api (ListPods NamespaceDefault),
          Stdout [Plain ''Error listing pods: '', ErrorText e]])) = None"
    using assms(2) by (simp add: deletions_def)
  from cleanupAndExit_returns [OF this] assms(1) show ?thesis
    by (simp add: poll_once_def)
qed

lemma pod_body_query_error_goes_on:
  assumes "ParseSelector (''regarding.name='' @ name) = Inr sel"
    and "events_reply cl (event_listings tr) (selector_String sel) = (Some items, Some e)"
    and "delete_reply cl (deletions tr) = None"
  shows "pod_body cl name tr =
           Running (tr @ [Api (ListEvents NamespaceDefault (selector_String sel)),
                          Stdout [Plain ''failed to get events: '', ErrorText e],
                          Stdout (Println ''Deleting deployment...''),
                          Api (DeleteDeployment NamespaceDefault ''event-count-issue-reproducer''
                                 (Some DeletePropagationForeground)),
                          Stdout (Println ''Deleted deployment.''),
                          Stdout (Println ''Exiting.'')]
                       @ map Stdout (concat (map (classify name) items)))"
proof -
  have "delete_reply cl (deletions (tr @ [Api (ListEvents NamespaceDefault (selector_String sel)),
          Stdout [Plain ''failed to get events: '', ErrorText e]])) = None"
    using assms(3) by (simp add: deletions_def)
  from cleanupAndExit_returns [OF this] assms(1,2) show ?thesis
    by (simp add: pod_body_def)
qed

lemma pod_body_selector_error_panics:
  assumes "ParseSelector (''regarding.name='' @ name) = Inl e"
    and "delete_reply cl (deletions tr) = None"
  shows "pod_body cl name tr =
           Halted NilDereference
             (tr @ [Stdout [Plain ''failed to parse field selector: '', ErrorText e],
                    Stdout (Println ''Deleting deployment...''),
                    Api (DeleteDeployment NamespaceDefault ''event-count-issue-reproducer''
                           (Some DeletePropagationForeground)),
                    Stdout (Println ''Deleted deployment.''),
                    Stdout (Println ''Exiting.'')])"
proof -
  have "delete_reply cl (deletions (tr @ [Stdout [Plain ''failed to parse field selector: '',
          ErrorText e]])) = None"
    using assms(2) by (simp add: deletions_def)
  from cleanupAndExit_returns [OF this] assms(1) show ?thesis
    by (simp add: pod_body_def)
qed

text \<open>
  C2. When the creation of the Deployment fails and the deletion succeeds, the process
  prints the error and runs the teardown, but does not exit: it prints the line of a
  successful creation (with the empty name of the object returned beside the error) and
  enters the poll loop. After one turn it has listed the pods and slept, and is running.
\<close>

theorem provisioning_error_keeps_running:
  "main create_fails 1 =
     Running
       [Stdout [Plain (''Creating deployment...'' @ nl)],
        Api (CreateDeployment ''default'' deployment),
        Stdout [Plain ''Error creating deployment: '', ErrorText (StatusError ''already exists'')],
        Stdout [Plain (''Deleting deployment...'' @ nl)],
        Api (DeleteDeployment ''default'' ''event-count-issue-reproducer''
               (Some DeletePropagationForeground)),
        Stdout [Plain (''Deleted deployment.'' @ nl)],
        Stdout [Plain (''Exiting.'' @ nl)],
        Stdout [Plain ''Created deployment '', GoQuoted [], Plain (''.'' @ nl)],
        Api (ListPods ''default''),
        Sleep 1]"
  by (simp add: run_defs create_fails_def quiet_cluster_def zero_deployment_def
        NamespaceDefault_def deploymentName_def)

text \<open>
  C3. When the first listing of the pods fails and the deletion succeeds, the error is
  printed and the teardown runs, but the loop goes on: the turn ends with its sleep, and
  the second turn lists the pods again, queries the events of the pod it finds and
  classifies the event returned.
\<close>

theorem listing_error_keeps_polling:
  "main listing_fails_once 2 =
     Running
       [Stdout [Plain (''Creating deployment...'' @ nl)],
        Api (CreateDeployment ''default'' deployment),
        Stdout [Plain ''Created deployment '', GoQuoted ''event-count-issue-reproducer'',
                Plain (''.'' @ nl)],
        Api (ListPods ''default''),
        Stdout [Plain ''Error listing pods: '', ErrorText (StatusError ''connection refused'')],
        Stdout [Plain (''Deleting deployment...'' @ nl)],
        Api (DeleteDeployment ''default'' ''event-count-issue-reproducer''
               (Some DeletePropagationForeground)),
        Stdout [Plain (''Deleted deployment.'' @ nl)],
        Stdout [Plain (''Exiting.'' @ nl)],
        Sleep 1,
        Api (ListPods ''default''),
        Api (ListEvents ''default'' ''regarding.name=web-1''),
        Stdout [Plain (''Issue is occuring - Event count is 0 for pod web-1. Event series is also nil'' @ nl)],
        Sleep 1]"
proof -
  have sel: "ParseSelector (''regarding.name='' @ ''web-1'') = Inr (HasTerm ''regarding.name'' ''web-1'')"
    by (rule ParseSelector_regarding) (simp add: special_def backslash_def)
  have esc: "EscapeValue ''web-1'' = ''web-1''"
    by (rule EscapeValue_plain) (simp add: special_def backslash_def)
  show ?thesis
    using sel esc
    by (simp add: run_defs listing_fails_once_def quiet_cluster_def zero_count_event_def
          classify_def deployment_def NamespaceDefault_def deploymentName_def eval_nat_numeral)
qed

text \<open>
  C9. On the path of a poll-loop error the teardown can run more than once before the
  process stops. When the listing of the pods fails in the first two turns, the first
  teardown succeeds and returns, the loop goes on, and the second teardown finds the
  Deployment gone and panics: two deletions are on the trace when the process stops.
\<close>

theorem teardown_invoked_twice:
  "main listing_fails_twice 2 =
     Halted (Panic (StatusError ''not found''))
       [Stdout [Plain (''Creating deployment...'' @ nl)],
        Api (CreateDeployment ''default'' deployment),
        Stdout [Plain ''Created deployment '', GoQuoted ''event-count-issue-reproducer'',
                Plain (''.'' @ nl)],
        Api (ListPods ''default''),
        Stdout [Plain ''Error listing pods: '', ErrorText (StatusError ''connection refused'')],
        Stdout [Plain (''Deleting deployment...'' @ nl)],
        Api (DeleteDeployment ''default'' ''event-count-issue-reproducer''
               (Some DeletePropagationForeground)),
        Stdout [Plain (''Deleted deployment.'' @ nl)],
        Stdout [Plain (''Exiting.'' @ nl)],
        Sleep 1,
        Api (ListPods ''default''),
        Stdout [Plain ''Error listing pods: '', ErrorText (StatusError ''connection refused'')],
        Stdout [Plain (''Deleting deployment...'' @ nl)],
        Api (DeleteDeployment ''default'' ''event-count-issue-reproducer''
               (Some DeletePropagationForeground))]
   \<and> deletions (trace_of (main listing_fails_twice 2)) = 2"
  by (simp add: run_defs listing_fails_twice_def quiet_cluster_def
        deployment_def NamespaceDefault_def deploymentName_def eval_nat_numeral)

end
